theory Spec2Isabelle
  imports Main
begin

section \<open>The webpack configuration composer of \<open>lib/utils/webpack.config.js\<close>\<close>

text \<open>
  The module exports one function,
  \<^verbatim>\<open>(program, directory, suppliedStage, webpackPort = 1500, pages = [])\<close>,
  which assembles a webpack configuration for one of five stages and hands it to an
  optional \<^verbatim>\<open>modifyWebpackConfig\<close> function of the site. The embedding below follows
  the source function by function: \<open>output\<close> (here \<open>output_fn\<close>), \<open>entry\<close>,
  \<open>plugins\<close>, \<open>resolve\<close>,
  \<open>devtool\<close>, \<open>module\<close> (here \<open>module_fn\<close>) and the exported function (here
  \<open>compose\<close>). A \<^verbatim>\<open>throw\<close> is a value \<open>Inl e\<close>. Two of the plugin constructors
  number their objects from counters of their own modules; these counters are the
  state a call takes and returns.
\<close>

subsection \<open>Strings and numbers of the host language\<close>

text \<open>The backslash of the regular expression literals.\<close>

definition bsl :: string where
  "bsl = [CHR 0x5C]"

text \<open>The decimal digits of a natural number.\<close>

function decimal :: "nat \<Rightarrow> string" where
  "decimal n =
     (if n < 10 then [''0123456789'' ! n]
      else decimal (n div 10) @ [''0123456789'' ! (n mod 10)])"
  by pat_completeness auto
termination
  by (relation "measure (\<lambda>n. n)") auto

declare decimal.simps [simp del]

text \<open>\<^verbatim>\<open>String.prototype.includes\<close>: the second string occurs in the first.\<close>

fun starts_with :: "string \<Rightarrow> string \<Rightarrow> bool" where
  "starts_with s [] = True"
| "starts_with [] (c # cs) = False"
| "starts_with (d # ds) (c # cs) = (d = c \<and> starts_with ds cs)"

fun includes_str :: "string \<Rightarrow> string \<Rightarrow> bool" where
  "includes_str [] sub = (sub = [])"
| "includes_str (c # cs) sub = (starts_with (c # cs) sub \<or> includes_str cs sub)"

text \<open>
  \<^verbatim>\<open>_.uniq\<close> of lodash: the elements in order of first occurrence. The loop keeps the
  result so far and appends a value that is not in it yet.
\<close>

fun uniq_loop :: "'a list \<Rightarrow> 'a list \<Rightarrow> 'a list" where
  "uniq_loop result [] = result"
| "uniq_loop result (x # xs) =
     (if x \<in> set result then uniq_loop result xs else uniq_loop (result @ [x]) xs)"

definition uniq :: "'a list \<Rightarrow> 'a list" where
  "uniq xs = uniq_loop [] xs"

subsection \<open>Inputs\<close>

text \<open>\<^verbatim>\<open>program\<close>: the fields the function reads.\<close>

record program =
  host :: string
  prefixLinks :: bool

text \<open>A page: \<^verbatim>\<open>page.component\<close> is the only field the function reads.\<close>

record page =
  page_path :: string
  component :: string

text \<open>\<^verbatim>\<open>siteDB().get(`config`)\<close>: the site configuration, of which \<^verbatim>\<open>linkPrefix\<close> is read.\<close>

record site_config =
  linkPrefix :: string

subsection \<open>The configuration\<close>

record output_conf =
  path :: string
  filename :: string
  publicPath :: "string option"
  libraryTarget :: "string option"

datatype entry_value = EntryFile string | EntryFiles "string list"

datatype devtool_value = DevtoolString string | DevtoolFalse

text \<open>
  The plugin objects, by constructor and arguments. \<open>DefinePlugin\<close> carries
  \<^verbatim>\<open>process.env.NODE_ENV\<close>, \<^verbatim>\<open>__PREFIX_LINKS__\<close> and \<^verbatim>\<open>__LINK_PREFIX__\<close>;
  \<open>OfflinePlugin\<close> carries \<^verbatim>\<open>publicPath\<close>, \<^verbatim>\<open>relativePaths\<close> and
  \<^verbatim>\<open>ServiceWorker.events\<close>. \<open>ExtractTextPlugin\<close> carries the \<^verbatim>\<open>id\<close> its
  constructor gives the object and the file name; \<open>CommonsChunkPlugin\<close> carries the
  name, the chunks, \<^verbatim>\<open>minChunks\<close> and the number at the end of the \<^verbatim>\<open>ident\<close> its
  constructor gives the object (the \<^verbatim>\<open>ident\<close> is the file name of the plugin's module
  followed by that number).
\<close>

datatype plugin =
    OccurenceOrderPlugin
  | HotModuleReplacementPlugin
  | NoErrorsPlugin
  | DefinePlugin string bool string
  | ExtractTextPlugin nat string
  | StaticSiteGeneratorPlugin string "page list"
  | IgnorePlugin string string
  | WebpackMD5Hash
  | DedupePlugin
  | CommonsChunkPlugin string "string list" nat nat
  | OfflinePlugin string bool bool
  | UglifyJsPlugin
  | StatsWriterPlugin

text \<open>
  The counters of the two modules: \<^verbatim>\<open>nextId\<close> of extract-text-webpack-plugin and
  \<^verbatim>\<open>nextIdent\<close> of webpack's \<^verbatim>\<open>CommonsChunkPlugin\<close>. Both start at 0 when the module
  is loaded and are never reset.
\<close>

record counters =
  nextId :: nat
  nextIdent :: nat

text \<open>
  \<^verbatim>\<open>new ExtractTextPlugin(filename)\<close>: \<^verbatim>\<open>id = ++nextId\<close>.
  \<^verbatim>\<open>new CommonsChunkPlugin(options)\<close>: \<^verbatim>\<open>ident = __filename + (nextIdent++)\<close>.
\<close>

definition new_ExtractTextPlugin :: "string \<Rightarrow> counters \<Rightarrow> plugin \<times> counters" where
  "new_ExtractTextPlugin file k =
     (ExtractTextPlugin (Suc (nextId k)) file, k\<lparr>nextId := Suc (nextId k)\<rparr>)"

definition new_CommonsChunkPlugin ::
  "string \<Rightarrow> string list \<Rightarrow> nat \<Rightarrow> counters \<Rightarrow> plugin \<times> counters" where
  "new_CommonsChunkPlugin name chunks minChunks k =
     (CommonsChunkPlugin name chunks minChunks (nextIdent k), k\<lparr>nextIdent := Suc (nextIdent k)\<rparr>)"

record resolve_conf =
  extensions :: "string list"
  resolve_root :: "string list"
  modulesDirectories :: "string list"

text \<open>
  What a loader entry runs: \<^verbatim>\<open>loader: x\<close>, \<^verbatim>\<open>loaders: [..]\<close>, or the value of
  \<^verbatim>\<open>ExtractTextPlugin.extract\<close>, called with the loaders alone or with a loader for
  the case that nothing is extracted and the loaders.
\<close>

datatype loader_use =
    Loader string
  | Loaders "string list"
  | Extract "string option" "string list"

record 'q loader_conf =
  test :: string
  exclude :: "string option"
  use :: loader_use
  query :: "'q option"

datatype postcss_plugin =
    PostcssImport bool
  | PostcssCssnext string
  | PostcssBrowserReporter
  | PostcssReporter

text \<open>\<^verbatim>\<open>postcss\<close> is merged as a function of the compiler in develop, as a list in build-css.\<close>

datatype postcss_conf = PostcssFunction "postcss_plugin list" | PostcssList "postcss_plugin list"

text \<open>
  The \<^verbatim>\<open>Config\<close> object of webpack-configurator after the calls of \<^verbatim>\<open>merge\<close> and
  \<^verbatim>\<open>loader\<close>: the merged keys, and the loaders by name in the order they were set.
\<close>

record 'q config =
  config_context :: string
  config_node_filename :: bool
  config_entry :: "(string \<times> entry_value) list"
  config_debug :: bool
  config_profile :: bool
  config_devtool :: devtool_value
  config_output :: output_conf
  config_resolveLoader_root :: "string list"
  config_plugins :: "plugin list"
  config_resolve :: resolve_conf
  config_postcss :: "postcss_conf option"
  config_loaders :: "(string \<times> 'q loader_conf) list"

text \<open>
  Values of the host language that \<^verbatim>\<open>modifyWebpackConfig\<close> may return:
  \<^verbatim>\<open>undefined\<close>, \<^verbatim>\<open>null\<close>, booleans, strings, arrays, the \<^verbatim>\<open>Config\<close> object, and
  plain objects, given by their own properties, with \<^verbatim>\<open>Object.prototype\<close> as
  prototype. Numbers, symbols and functions are left out, so no property of an object
  is callable.
\<close>

datatype 'q js_value =
    JsUndefined
  | JsNull
  | JsBoolean bool
  | JsString string
  | JsArray "'q js_value list"
  | JsObject "(string \<times> 'q js_value) list"
  | JsConfig "'q config"

text \<open>
  The failures of the function: \<^verbatim>\<open>throw new Error(message)\<close> of the stage switches;
  the failed \<^verbatim>\<open>invariant\<close>, with the message of the error it throws; and the
  \<^verbatim>\<open>TypeError\<close> of a value that cannot be converted to a string.
\<close>

datatype error = StageError string | InvariantViolation string | TypeError

subsection \<open>What the module reads from outside\<close>

text \<open>
  The process and the modules the function calls into. \<open>process_env\<close> is
  \<^verbatim>\<open>process.env\<close>; \<open>siteDB_config\<close> is \<^verbatim>\<open>siteDB().get(`config`)\<close>;
  \<open>pagesDB_values\<close> is \<^verbatim>\<open>Array.from(pagesDB().values())\<close>. The functions
  \<^verbatim>\<open>require.resolve\<close>, \<^verbatim>\<open>path.resolve\<close>, \<^verbatim>\<open>JSON.stringify\<close> (on strings),
  \<^verbatim>\<open>layoutComponentChunkName\<close> of \<^verbatim>\<open>./js-chunk-names\<close> and \<^verbatim>\<open>babelConfig\<close> of
  \<^verbatim>\<open>./babel-config\<close> are not part of this file and are parameters, as is the type
  \<open>'q\<close> of a babel configuration. \<open>large_number_string\<close> is the string a template
  literal prints for a number from \<open>2\<^sup>5\<^sup>3\<close> on.
\<close>

record 'q environment =
  process_env :: "string \<rightharpoonup> string"
  siteDB_config :: site_config
  pagesDB_values :: "page list"
  dirname :: string
  require_resolve :: "string \<Rightarrow> string"
  path_resolve :: "string list \<Rightarrow> string"
  JSON_stringify :: "string \<Rightarrow> string"
  layoutComponentChunkName :: "string \<Rightarrow> string"
  babelConfig :: "program \<Rightarrow> string \<Rightarrow> 'q"
  large_number_string :: "nat \<Rightarrow> string"

text \<open>\<^verbatim>\<open>modifyWebpackConfig\<close>, when the site's \<^verbatim>\<open>gatsby-node\<close> exports one.\<close>

type_synonym 'q hook = "'q config \<Rightarrow> string \<Rightarrow> 'q js_value"

text \<open>
  \<^verbatim>\<open>${webpackPort}\<close> for a port that is a non-negative integer. Below \<open>2\<^sup>5\<^sup>3\<close>
  every integer is a number of the host language and is printed by its decimal digits.
  From there on the digits printed are the shortest that read back as the number, with
  an exponent from \<open>10\<^sup>2\<^sup>1\<close> on.
\<close>

definition template_number :: "'q environment \<Rightarrow> nat \<Rightarrow> string" where
  "template_number env n = (if n < 2 ^ 53 then decimal n else large_number_string env n)"

subsection \<open>The stage\<close>

text \<open>
  \<^verbatim>\<open>const stage = (suppliedStage === `develop-html`) ? `develop` : suppliedStage\<close>;
  \<^verbatim>\<open>babelStage\<close> is the supplied stage itself.
\<close>

definition stage_of :: "string \<Rightarrow> string" where
  "stage_of suppliedStage =
     (if suppliedStage = ''develop-html'' then ''develop'' else suppliedStage)"

text \<open>The message of the \<^verbatim>\<open>default\<close> branch of the switches that throw.\<close>

definition no_such_stage :: "string \<Rightarrow> error" where
  "no_such_stage stage = StageError (''The state requested '' @ stage @ '' doesn't exist.'')"

text \<open>
  \<^verbatim>\<open>program.prefixLinks ? `${siteDB().get(`config`).linkPrefix}/` : `/`\<close>, which the
  source writes out three times.
\<close>

definition prefixed_publicPath :: "'q environment \<Rightarrow> program \<Rightarrow> string" where
  "prefixed_publicPath env program =
     (if prefixLinks program then linkPrefix (siteDB_config env) @ ''/'' else ''/'')"

text \<open>
  The \<^verbatim>\<open>DefinePlugin\<close> every stage builds;
  \<^verbatim>\<open>process.env.NODE_ENV ? process.env.NODE_ENV : fallback\<close> takes the fallback for a
  variable that is unset or the empty string.
\<close>

definition node_env :: "'q environment \<Rightarrow> string \<Rightarrow> string" where
  "node_env env fallback =
     (case process_env env ''NODE_ENV'' of
        None \<Rightarrow> fallback
      | Some v \<Rightarrow> if v = [] then fallback else v)"

definition define_plugin :: "'q environment \<Rightarrow> program \<Rightarrow> string \<Rightarrow> plugin" where
  "define_plugin env program fallback =
     DefinePlugin (JSON_stringify env (node_env env fallback))
       (prefixLinks program)
       (JSON_stringify env (linkPrefix (siteDB_config env)))"

subsection \<open>\<open>output\<close>\<close>

definition output_fn ::
  "'q environment \<Rightarrow> program \<Rightarrow> string \<Rightarrow> string \<Rightarrow> nat \<Rightarrow> error + output_conf" where
  "output_fn env program directory stage webpackPort =
     (if stage = ''develop'' then
        Inr \<lparr>path = directory,
             filename = ''[name].js'',
             publicPath = Some (''http://'' @ host program @ '':''
                                @ template_number env webpackPort @ ''/''),
             libraryTarget = None\<rparr>
      else if stage = ''build-css'' then
        Inr \<lparr>path = directory @ ''/public'',
             filename = ''bundle-for-css.js'',
             publicPath = Some (prefixed_publicPath env program),
             libraryTarget = None\<rparr>
      else if stage = ''build-html'' then
        Inr \<lparr>path = directory @ ''/public'',
             filename = ''render-page.js'',
             publicPath = None,
             libraryTarget = Some ''umd''\<rparr>
      else if stage = ''build-javascript'' then
        Inr \<lparr>path = directory @ ''/public'',
             filename = ''[name]-[chunkhash:8].js'',
             publicPath = Some (prefixed_publicPath env program),
             libraryTarget = None\<rparr>
      else Inl (no_such_stage stage))"

subsection \<open>\<open>entry\<close>\<close>

definition entry ::
  "'q environment \<Rightarrow> program \<Rightarrow> string \<Rightarrow> string \<Rightarrow> nat
     \<Rightarrow> error + (string \<times> entry_value) list" where
  "entry env program directory stage webpackPort =
     (if stage = ''develop'' then
        Inr [(''commons'', EntryFiles
          [require_resolve env ''webpack-dev-server/client''
             @ ''?http://'' @ host program @ '':'' @ template_number env webpackPort @ ''/'',
           require_resolve env ''webpack/hot/only-dev-server'',
           require_resolve env ''react-hot-loader/patch'',
           directory @ ''/.intermediate-representation/app''])]
      else if stage = ''build-css'' then
        Inr [(''main'', EntryFile (directory @ ''/.intermediate-representation/app''))]
      else if stage = ''build-html'' then
        Inr [(''main'', EntryFile (dirname env @ ''/static-entry''))]
      else if stage = ''build-javascript'' then
        Inr [(''app'', EntryFile (directory @ ''/.intermediate-representation/production-app''))]
      else Inl (no_such_stage stage))"

subsection \<open>\<open>plugins\<close>\<close>

text \<open>
  The plugins are constructed in the order of the array literal; the counters are
  passed through the two constructors that use them.
\<close>

definition plugins ::
  "'q environment \<Rightarrow> program \<Rightarrow> string \<Rightarrow> page list \<Rightarrow> counters
     \<Rightarrow> (error + plugin list) \<times> counters" where
  "plugins env program stage pages k =
     (if stage = ''develop'' then
        (Inr [OccurenceOrderPlugin,
              HotModuleReplacementPlugin,
              NoErrorsPlugin,
              define_plugin env program ''development''], k)
      else if stage = ''build-css'' then
        (let (extractText, k) = new_ExtractTextPlugin ''styles.css'' k
         in (Inr [define_plugin env program ''production'',
                  extractText], k))
      else if stage = ''build-html'' then
        (let (extractText, k) = new_ExtractTextPlugin ''styles.css'' k
         in (Inr [StaticSiteGeneratorPlugin ''render-page.js'' pages,
                  define_plugin env program ''production'',
                  extractText], k))
      else if stage = ''build-javascript'' then
        (let components = uniq (map component (pagesDB_values env));
             components = map (layoutComponentChunkName env) components;
             (commonsChunk, k) =
               new_CommonsChunkPlugin ''commons'' (''app'' # components)
                 (length components div 2) k;
             (extractText, k) = new_ExtractTextPlugin ''styles.css'' k
         in (Inr [IgnorePlugin (''/^'' @ bsl @ ''.'' @ bsl @ ''/locale$/'') ''/moment$/'',
                  WebpackMD5Hash,
                  DedupePlugin,
                  OccurenceOrderPlugin,
                  commonsChunk,
                  define_plugin env program ''production'',
                  extractText,
                  OfflinePlugin (prefixed_publicPath env program) False True,
                  UglifyJsPlugin,
                  StatsWriterPlugin], k))
      else (Inl (no_such_stage stage), k))"

subsection \<open>\<open>resolve\<close> and \<open>devtool\<close>\<close>

definition resolve :: "'q environment \<Rightarrow> string \<Rightarrow> resolve_conf" where
  "resolve env directory =
     \<lparr>extensions = ['''', ''.js'', ''.jsx'', ''.cjsx'', ''.coffee''],
      resolve_root = [directory, path_resolve env [dirname env, ''..'', ''isomorphic'']],
      modulesDirectories =
        [directory @ ''/node_modules'',
         directory @ ''/node_modules/gatsby/node_modules'',
         ''node_modules'']\<rparr>"

definition devtool :: "string \<Rightarrow> devtool_value" where
  "devtool stage =
     (if stage = ''develop'' then DevtoolString ''eval''
      else if stage = ''build-html'' then DevtoolFalse
      else if stage = ''build-javascript'' then DevtoolString ''source-map''
      else DevtoolFalse)"

subsection \<open>\<open>module\<close>: the loaders\<close>

definition cssModulesConf :: string where
  "cssModulesConf = ''css?modules&minimize&importLoaders=1''"

definition cssModulesConfDev :: string where
  "cssModulesConfDev =
     cssModulesConf @ ''&sourceMap&localIdentName=[name]---[local]---[hash:base64:5]''"

text \<open>The version suffix \<^verbatim>\<open>(\?v=[0-9]\.[0-9]\.[0-9])?$/\<close> of the font patterns.\<close>

definition font_version_suffix :: string where
  "font_version_suffix =
     ''('' @ bsl @ ''?v=[0-9]'' @ bsl @ ''.[0-9]'' @ bsl @ ''.[0-9])?$/''"

text \<open>The loaders set for every stage, in the order of the calls of \<^verbatim>\<open>config.loader\<close>.\<close>

definition common_loaders ::
  "'q environment \<Rightarrow> program \<Rightarrow> string \<Rightarrow> (string \<times> 'q loader_conf) list" where
  "common_loaders env program babelStage =
     [(''cjsx'',
        \<lparr>test = ''/'' @ bsl @ ''.cjsx$/'', exclude = None,
         use = Loaders [''coffee'', ''cjsx''], query = None\<rparr>),
      (''js'',
        \<lparr>test = ''/'' @ bsl @ ''.jsx?$/'',
         exclude = Some ''/(node_modules|bower_components)/'',
         use = Loader ''babel'',
         query = Some (babelConfig env program babelStage)\<rparr>),
      (''coffee'',
        \<lparr>test = ''/'' @ bsl @ ''.coffee$/'', exclude = None,
         use = Loader ''coffee'', query = None\<rparr>),
      (''json'',
        \<lparr>test = ''/'' @ bsl @ ''.json$/'', exclude = None,
         use = Loaders [''json''], query = None\<rparr>),
      (''images'',
        \<lparr>test = ''/'' @ bsl @ ''.(jpe?g|png|gif|svg)('' @ bsl @ ''?.*)?$/i'', exclude = None,
         use = Loaders [''url-loader?limit=10000''], query = None\<rparr>),
      (''woff'',
        \<lparr>test = ''/'' @ bsl @ ''.woff(2)?'' @ font_version_suffix, exclude = None,
         use = Loader ''url-loader?limit=10000&minetype=application/font-woff'',
         query = None\<rparr>),
      (''ttf'',
        \<lparr>test = ''/'' @ bsl @ ''.(ttf)'' @ font_version_suffix, exclude = None,
         use = Loader ''file-loader'', query = None\<rparr>),
      (''eot'',
        \<lparr>test = ''/'' @ bsl @ ''.(eot)'' @ font_version_suffix, exclude = None,
         use = Loader ''file-loader'', query = None\<rparr>)]"

definition css_test :: string where
  "css_test = ''/'' @ bsl @ ''.css$/''"

definition module_css_test :: string where
  "module_css_test = ''/'' @ bsl @ ''.module'' @ bsl @ ''.css$/''"

text \<open>
  \<^verbatim>\<open>module(config)\<close>: the common loaders, then the \<^verbatim>\<open>css\<close> and \<^verbatim>\<open>cssModules\<close>
  loaders and the \<^verbatim>\<open>postcss\<close> key of the stage. The \<^verbatim>\<open>default\<close> branch returns
  the configuration with the common loaders only.
\<close>

definition module_fn ::
  "'q environment \<Rightarrow> program \<Rightarrow> string \<Rightarrow> string \<Rightarrow> 'q config \<Rightarrow> 'q config" where
  "module_fn env program babelStage stage config =
     (let config = config\<lparr>config_loaders :=
            config_loaders config @ common_loaders env program babelStage\<rparr>
      in
      if stage = ''develop'' then
        config\<lparr>config_loaders := config_loaders config @
            [(''css'',
               \<lparr>test = css_test, exclude = Some module_css_test,
                use = Loaders [''style'', ''css'', ''postcss''], query = None\<rparr>),
             (''cssModules'',
               \<lparr>test = module_css_test, exclude = None,
                use = Loaders [''style'', cssModulesConfDev, ''postcss''], query = None\<rparr>)],
          config_postcss := Some (PostcssFunction
            [PostcssImport True, PostcssCssnext ''last 2 versions'',
             PostcssBrowserReporter, PostcssReporter])\<rparr>
      else if stage = ''build-css'' then
        config\<lparr>config_loaders := config_loaders config @
            [(''css'',
               \<lparr>test = css_test, exclude = Some module_css_test,
                use = Extract None [''css?minimize'', ''postcss''], query = None\<rparr>),
             (''cssModules'',
               \<lparr>test = module_css_test, exclude = None,
                use = Extract (Some ''style'') [cssModulesConf, ''postcss''], query = None\<rparr>)],
          config_postcss := Some (PostcssList
            [PostcssImport False, PostcssCssnext ''last 2 versions''])\<rparr>
      else if stage = ''build-html'' then
        config\<lparr>config_loaders := config_loaders config @
            [(''css'',
               \<lparr>test = css_test, exclude = Some module_css_test,
                use = Loader ''null'', query = None\<rparr>),
             (''cssModules'',
               \<lparr>test = module_css_test, exclude = None,
                use = Extract (Some ''style'') [cssModulesConf, ''postcss''], query = None\<rparr>)]\<rparr>
      else if stage = ''build-javascript'' then
        config\<lparr>config_loaders := config_loaders config @
            [(''css'',
               \<lparr>test = css_test, exclude = Some module_css_test,
                use = Loader ''null'', query = None\<rparr>),
             (''cssModules'',
               \<lparr>test = module_css_test, exclude = None,
                use = Extract (Some ''style'') [cssModulesConf, ''postcss''], query = None\<rparr>)]\<rparr>
      else config)"

subsection \<open>The check on what \<^verbatim>\<open>modifyWebpackConfig\<close> returns\<close>

text \<open>
  \<^verbatim>\<open>_.isObject\<close> of lodash: true of a value whose type is object or function and that
  is not \<^verbatim>\<open>null\<close>; an array is an object.
\<close>

fun isObject :: "'q js_value \<Rightarrow> bool" where
  "isObject JsUndefined = False"
| "isObject JsNull = False"
| "isObject (JsBoolean b) = False"
| "isObject (JsString s) = False"
| "isObject (JsArray vs) = True"
| "isObject (JsObject kvs) = True"
| "isObject (JsConfig c) = True"

text \<open>
  The string a template literal puts in for a value. An object is converted by its
  \<^verbatim>\<open>toString\<close>: that of \<^verbatim>\<open>Object.prototype\<close> gives \<^verbatim>\<open>[object Object]\<close>; an own
  property \<^verbatim>\<open>toString\<close> hides it and is not callable, \<^verbatim>\<open>valueOf\<close> gives no primitive
  value either, and the conversion throws a \<^verbatim>\<open>TypeError\<close>. An array joins the strings
  of its elements with commas, \<^verbatim>\<open>null\<close> and \<^verbatim>\<open>undefined\<close> elements giving the empty
  string; the first element that throws ends the conversion.
\<close>

fun join_comma :: "string list \<Rightarrow> string" where
  "join_comma [] = []"
| "join_comma [s] = s"
| "join_comma (s # t # ts) = s @ '','' @ join_comma (t # ts)"

fun all_or_first_error :: "(error + 'a) list \<Rightarrow> error + 'a list" where
  "all_or_first_error [] = Inr []"
| "all_or_first_error (Inl e # rs) = Inl e"
| "all_or_first_error (Inr x # rs) =
     (case all_or_first_error rs of Inl e \<Rightarrow> Inl e | Inr xs \<Rightarrow> Inr (x # xs))"

fun ToString :: "'q js_value \<Rightarrow> error + string" where
  "ToString JsUndefined = Inr ''undefined''"
| "ToString JsNull = Inr ''null''"
| "ToString (JsBoolean b) = Inr (if b then ''true'' else ''false'')"
| "ToString (JsString s) = Inr s"
| "ToString (JsArray vs) =
     (case all_or_first_error
        (map (\<lambda>v. if v = JsNull \<or> v = JsUndefined then Inr [] else ToString v) vs) of
        Inl e \<Rightarrow> Inl e
      | Inr strs \<Rightarrow> Inr (join_comma strs))"
| "ToString (JsObject kvs) =
     (if ''toString'' \<in> set (map fst kvs) then Inl TypeError else Inr ''[object Object]'')"
| "ToString (JsConfig c) = Inr ''[object Object]''"

text \<open>
  The message handed to \<^verbatim>\<open>invariant\<close>: a template literal over four lines, with
  the string of the returned value and the stage.
\<close>

definition message_indent :: string where
  "message_indent = CHR 0x0A # replicate 14 CHR '' ''"

definition invariant_message :: "string \<Rightarrow> string \<Rightarrow> string" where
  "invariant_message returned stage =
     message_indent @ ''You must return an object when modifying the Webpack config.''
     @ message_indent @ ''Returned: '' @ returned
     @ message_indent @ ''stage: '' @ stage
     @ message_indent"

text \<open>
  \<^verbatim>\<open>invariant(condition, format)\<close> of the invariant package throws, when the condition
  is false, an error whose message is \<^verbatim>\<open>format.replace(/%s/g, ...)\<close> with its further
  arguments; the call passes none, so every \<^verbatim>\<open>%s\<close> of the message becomes
  \<^verbatim>\<open>undefined\<close>.
\<close>

fun invariant_format :: "string \<Rightarrow> string" where
  "invariant_format [] = []"
| "invariant_format [c] = [c]"
| "invariant_format (c # d # cs) =
     (if c = CHR ''%'' \<and> d = CHR ''s'' then ''undefined'' @ invariant_format cs
      else c # invariant_format (d # cs))"

subsection \<open>The exported function\<close>

text \<open>
  The object literal handed to \<^verbatim>\<open>config.merge\<close> calls \<^verbatim>\<open>entry()\<close>,
  \<^verbatim>\<open>devtool()\<close>, \<^verbatim>\<open>output()\<close>, \<^verbatim>\<open>plugins()\<close> and \<^verbatim>\<open>resolve()\<close> in this
  order; the first that throws ends the call. An omitted \<^verbatim>\<open>webpackPort\<close> is 1500, an
  omitted \<^verbatim>\<open>pages\<close> is the empty list. The arguments of \<^verbatim>\<open>invariant\<close> are evaluated
  before it is called: the message is built, and the returned value converted to a
  string, whether the check holds or not.
\<close>

definition compose ::
  "'q environment \<Rightarrow> 'q hook option \<Rightarrow> program \<Rightarrow> string \<Rightarrow> string \<Rightarrow> nat option
     \<Rightarrow> page list option \<Rightarrow> counters \<Rightarrow> (error + 'q js_value) \<times> counters" where
  "compose env modifyWebpackConfig program directory suppliedStage webpackPort_arg pages_arg k =
     (let webpackPort = (case webpackPort_arg of None \<Rightarrow> 1500 | Some p \<Rightarrow> p);
          pages = (case pages_arg of None \<Rightarrow> [] | Some ps \<Rightarrow> ps);
          babelStage = suppliedStage;
          stage = stage_of suppliedStage
      in
      case entry env program directory stage webpackPort of
        Inl e \<Rightarrow> (Inl e, k)
      | Inr entry_v \<Rightarrow>
      (case output_fn env program directory stage webpackPort of
        Inl e \<Rightarrow> (Inl e, k)
      | Inr output_v \<Rightarrow>
      (case plugins env program stage pages k of
        (Inl e, k) \<Rightarrow> (Inl e, k)
      | (Inr plugins_v, k) \<Rightarrow>
        (let config =
           \<lparr>config_context = directory @ ''/pages'',
            config_node_filename = True,
            config_entry = entry_v,
            config_debug = True,
            config_profile = (stage = ''production''),
            config_devtool = devtool stage,
            config_output = output_v,
            config_resolveLoader_root =
              [path_resolve env [directory, ''loaders''],
               path_resolve env [dirname env, ''..'', ''loaders''],
               path_resolve env [directory, ''node_modules''],
               path_resolve env [directory, ''node_modules/gatsby/node_modules'']],
            config_plugins = plugins_v,
            config_resolve = resolve env directory,
            config_postcss = None,
            config_loaders = []\<rparr>
         in
         case modifyWebpackConfig of
           Some modify \<Rightarrow>
             (let modifiedWebpackConfig =
                    modify (module_fn env program babelStage stage config) stage
              in case ToString modifiedWebpackConfig of
                   Inl e \<Rightarrow> (Inl e, k)
                 | Inr returned \<Rightarrow>
                     if isObject modifiedWebpackConfig then (Inr modifiedWebpackConfig, k)
                     else (Inl (InvariantViolation
                            (invariant_format (invariant_message returned stage))), k))
         | None \<Rightarrow> (Inr (JsConfig (module_fn env program babelStage stage config)), k)))))"

subsection \<open>Reading a result\<close>

text \<open>The configuration of a call that returned the \<^verbatim>\<open>Config\<close> object.\<close>

fun composed :: "error + 'q js_value \<Rightarrow> 'q config option" where
  "composed (Inr (JsConfig c)) = Some c"
| "composed r = None"

text \<open>The \<^verbatim>\<open>minChunks\<close> of the \<^verbatim>\<open>CommonsChunkPlugin\<close>s of a plugin list.\<close>

fun minChunks_of :: "plugin \<Rightarrow> nat option" where
  "minChunks_of (CommonsChunkPlugin name chunks minChunks ident) = Some minChunks"
| "minChunks_of p = None"

definition commons_minChunks :: "plugin list \<Rightarrow> nat list" where
  "commons_minChunks ps = List.map_filter minChunks_of ps"

text \<open>The files the \<^verbatim>\<open>ExtractTextPlugin\<close>s of a plugin list write.\<close>

fun extract_text_file :: "plugin \<Rightarrow> string option" where
  "extract_text_file (ExtractTextPlugin i file) = Some file"
| "extract_text_file p = None"

definition extract_text_files :: "plugin list \<Rightarrow> string list" where
  "extract_text_files ps = List.map_filter extract_text_file ps"



text \<open>
  What the loaders for plain stylesheets (test \<^verbatim>\<open>/\.css$/\<close>) and for the module
  stylesheets (test \<^verbatim>\<open>/\.module\.css$/\<close>) run.
\<close>

definition uses_for :: "string \<Rightarrow> 'q config \<Rightarrow> loader_use list" where
  "uses_for t c = map (\<lambda>(name, l). use l) (filter (\<lambda>(name, l). test l = t) (config_loaders c))"

text \<open>
  Every loader a loader entry names, the one that \<^verbatim>\<open>ExtractTextPlugin.extract\<close>
  keeps for the case that nothing is extracted included. A rule injects styles at run
  time when the \<^verbatim>\<open>style\<close> loader is among them.
\<close>

fun loader_names :: "loader_use \<Rightarrow> string list" where
  "loader_names (Loader l) = [l]"
| "loader_names (Loaders ls) = ls"
| "loader_names (Extract None ls) = ls"
| "loader_names (Extract (Some l) ls) = l # ls"

definition injects_style :: "loader_use \<Rightarrow> bool" where
  "injects_style u = (''style'' \<in> set (loader_names u))"

fun extracts :: "loader_use \<Rightarrow> bool" where
  "extracts (Extract l ls) = True"
| "extracts u = False"

text \<open>A hash placeholder of webpack in a file name: \<^verbatim>\<open>[hash..\<close> or \<^verbatim>\<open>[chunkhash..\<close>.\<close>

definition has_hash_token :: "string \<Rightarrow> bool" where
  "has_hash_token f = (includes_str f ''[hash'' \<or> includes_str f ''[chunkhash'')"

text \<open>The five stages the switches know, \<^verbatim>\<open>develop-html\<close> being read as \<^verbatim>\<open>develop\<close>.\<close>

definition recognized_stages :: "string list" where
  "recognized_stages =
     [''develop'', ''develop-html'', ''build-css'', ''build-html'', ''build-javascript'']"

text \<open>A \<^verbatim>\<open>modifyWebpackConfig\<close> that returns the same value whatever it is given.\<close>

definition returning :: "'q js_value \<Rightarrow> 'q hook" where
  "returning v = (\<lambda>config stage. v)"

text \<open>
  The number a string of decimal digits stands for, read from the character codes
  (the code of the digit 0 is 48).
\<close>

definition digits_value :: "string \<Rightarrow> nat" where
  "digits_value s = foldl (\<lambda>acc c. 10 * acc + (of_char c - 48)) 0 s"

subsection \<open>A concrete site\<close>

definition quoted :: "string \<Rightarrow> string" where
  "quoted s = CHR 0x22 # s @ [CHR 0x22]"

definition joined_path :: "string list \<Rightarrow> string" where
  "joined_path segments = concat (map (\<lambda>s. CHR ''/'' # s) segments)"

definition site_env :: "page list \<Rightarrow> (string \<rightharpoonup> string) \<Rightarrow> string environment" where
  "site_env registry vars =
     \<lparr>process_env = vars,
      siteDB_config = \<lparr>linkPrefix = ''/blog''\<rparr>,
      pagesDB_values = registry,
      dirname = ''/gatsby/lib/utils'',
      require_resolve = (\<lambda>m. ''/gatsby/node_modules/'' @ m),
      path_resolve = joined_path,
      JSON_stringify = quoted,
      layoutComponentChunkName = (\<lambda>c. ''page-component---'' @ c),
      babelConfig = (\<lambda>program stage. ''babel-'' @ stage),
      large_number_string = (\<lambda>n. ''9007199254740992'')\<rparr>"

definition site_program :: program where
  "site_program = \<lparr>host = ''localhost'', prefixLinks = False\<rparr>"

definition page_A :: page where
  "page_A = \<lparr>page_path = ''/'', component = ''A''\<rparr>"

definition page_B :: page where
  "page_B = \<lparr>page_path = ''/b/'', component = ''B''\<rparr>"

definition page_A2 :: page where
  "page_A2 = \<lparr>page_path = ''/a2/'', component = ''A''\<rparr>"

definition no_vars :: "string \<rightharpoonup> string" where
  "no_vars = Map.empty"

text \<open>The counters of a process that has not built a plugin yet.\<close>

definition fresh :: counters where
  "fresh = \<lparr>nextId = 0, nextIdent = 0\<rparr>"

subsection \<open>Projections of a result used in the statements\<close>

text \<open>The number of distinct component paths among pages.\<close>

definition distinct_component_count :: "page list \<Rightarrow> nat" where
  "distinct_component_count ps = card (set (map component ps))"

definition composed_minChunks :: "error + 'q js_value \<Rightarrow> nat list option" where
  "composed_minChunks r = map_option (\<lambda>c. commons_minChunks (config_plugins c)) (composed r)"

definition plain_stylesheet_loaders :: "error + 'q js_value \<Rightarrow> loader_use list option" where
  "plain_stylesheet_loaders r = map_option (uses_for css_test) (composed r)"

definition module_stylesheet_loaders :: "error + 'q js_value \<Rightarrow> loader_use list option" where
  "module_stylesheet_loaders r = map_option (uses_for module_css_test) (composed r)"

definition composed_plugins :: "error + 'q js_value \<Rightarrow> plugin list option" where
  "composed_plugins r = map_option config_plugins (composed r)"

definition composed_filename :: "error + 'q js_value \<Rightarrow> string option" where
  "composed_filename r = map_option (\<lambda>c. filename (config_output c)) (composed r)"

definition composed_publicPath :: "error + 'q js_value \<Rightarrow> string option option" where
  "composed_publicPath r = map_option (\<lambda>c. publicPath (config_output c)) (composed r)"

definition composed_devtool :: "error + 'q js_value \<Rightarrow> devtool_value option" where
  "composed_devtool r = map_option config_devtool (composed r)"

definition composed_profile :: "error + 'q js_value \<Rightarrow> bool option" where
  "composed_profile r = map_option config_profile (composed r)"

section \<open>Properties\<close>

lemmas planner_defs = stage_of_def entry_def output_fn_def plugins_def devtool_def
  new_ExtractTextPlugin_def new_CommonsChunkPlugin_def

lemmas loader_defs = module_fn_def common_loaders_def uses_for_def css_test_def
  module_css_test_def font_version_suffix_def bsl_def

subsection \<open>\<open>uniq\<close> keeps one copy of each element\<close>

lemma uniq_loop_set: "set (uniq_loop result xs) = set result \<union> set xs"
  by (induction xs arbitrary: result) auto

lemma uniq_loop_distinct: "distinct result \<Longrightarrow> distinct (uniq_loop result xs)"
  by (induction xs arbitrary: result) auto

lemma length_uniq: "length (uniq xs) = card (set xs)"
proof -
  have "distinct (uniq xs)"
    by (simp add: uniq_def uniq_loop_distinct)
  moreover have "set (uniq xs) = set xs"
    by (simp add: uniq_def uniq_loop_set)
  ultimately show ?thesis
    using distinct_card by metis
qed

subsection \<open>The shared-chunk threshold\<close>

text \<open>
  Claim C1, as the code has it. In stage \<^verbatim>\<open>build-javascript\<close>, with no
  \<^verbatim>\<open>modifyWebpackConfig\<close>, the call returns a configuration with exactly one
  \<^verbatim>\<open>CommonsChunkPlugin\<close>, and its \<^verbatim>\<open>minChunks\<close> is half the number of distinct
  component paths of the pages in the page registry \<^verbatim>\<open>pagesDB()\<close>, rounded down. The
  \<^verbatim>\<open>pages\<close> argument has no part in it.
\<close>

theorem build_javascript_minChunks_from_registry:
  "composed_minChunks
     (fst (compose env None program directory ''build-javascript'' port pages k))
   = Some [distinct_component_count (pagesDB_values env) div 2]"
  by (simp add: compose_def planner_defs Let_def composed_minChunks_def module_fn_def
      commons_minChunks_def List.map_filter_simps length_uniq define_plugin_def
      distinct_component_count_def)

text \<open>
  C1 at a registry of three pages with the components A, B, A: two distinct
  components, \<^verbatim>\<open>minChunks\<close> 1; and at the empty registry: 0.
\<close>

theorem build_javascript_minChunks_from_registry_witness:
  "composed_minChunks
     (fst (compose (site_env [page_A, page_B, page_A2] no_vars) None site_program ''/site''
        ''build-javascript'' None None fresh)) = Some [1]
   \<and> composed_minChunks
     (fst (compose (site_env [] no_vars) None site_program ''/site''
        ''build-javascript'' None None fresh)) = Some [0]"
  using build_javascript_minChunks_from_registry
      [of "site_env [page_A, page_B, page_A2] no_vars" site_program "''/site''" None None fresh]
    build_javascript_minChunks_from_registry
      [of "site_env [] no_vars" site_program "''/site''" None None fresh]
  by (simp add: distinct_component_count_def site_env_def page_A_def page_B_def page_A2_def
      card_insert_if)

text \<open>
  C1 as stated fails: with the pages A, B, A supplied as the \<^verbatim>\<open>pages\<close> argument and
  an empty page registry, \<^verbatim>\<open>minChunks\<close> is 0, while the supplied pages have two
  distinct components, half of which is 1.
\<close>

theorem minChunks_ignores_supplied_pages:
  "composed_minChunks
     (fst (compose (site_env [] no_vars) None site_program ''/site'' ''build-javascript''
        (Some 1500) (Some [page_A, page_B, page_A2]) fresh)) = Some [0]
   \<and> distinct_component_count [page_A, page_B, page_A2] div 2 = 1"
  by (simp add: compose_def planner_defs Let_def composed_minChunks_def module_fn_def
      commons_minChunks_def List.map_filter_simps define_plugin_def
      distinct_component_count_def site_env_def uniq_def page_A_def page_B_def page_A2_def
      card_insert_if)

subsection \<open>An unknown stage\<close>

text \<open>
  Claim C2. For a stage that is none of the five names, the call fails with the error of
  the \<^verbatim>\<open>default\<close> branch, whose message names the stage. It is \<^verbatim>\<open>entry()\<close>, the
  first call the object literal makes, that throws: nothing of \<^verbatim>\<open>devtool()\<close>,
  \<^verbatim>\<open>output()\<close>, \<^verbatim>\<open>plugins()\<close>, \<^verbatim>\<open>resolve()\<close> or \<^verbatim>\<open>module()\<close> is computed, no
  plugin is constructed (the counters are as before), and \<^verbatim>\<open>modifyWebpackConfig\<close> is
  not called, whether it is there or not. No configuration is returned.
\<close>

theorem unknown_stage_fails:
  "suppliedStage \<notin> set recognized_stages \<Longrightarrow>
   compose env modifyWebpackConfig program directory suppliedStage port pages k
     = (Inl (StageError (''The state requested '' @ suppliedStage @ '' doesn't exist.'')), k)"
  by (simp add: compose_def planner_defs Let_def recognized_stages_def no_such_stage_def)

text \<open>C2 at the stage \<^verbatim>\<open>production\<close>, with a \<^verbatim>\<open>modifyWebpackConfig\<close> present.\<close>

theorem unknown_stage_fails_witness:
  "''production'' \<notin> set recognized_stages
   \<and> compose (site_env [] no_vars) (Some (returning (JsObject []))) site_program ''/site''
        ''production'' None None fresh
      = (Inl (StageError ''The state requested production doesn't exist.''), fresh)"
  using unknown_stage_fails [of "''production''" "site_env [] no_vars"
      "Some (returning (JsObject []))" site_program "''/site''" None None fresh]
  by (simp add: recognized_stages_def)

subsection \<open>The value \<^verbatim>\<open>modifyWebpackConfig\<close> returns\<close>















subsection \<open>Two calls with the same arguments\<close>










subsection \<open>Stylesheets\<close>

text \<open>
  Claim C5. With no \<^verbatim>\<open>modifyWebpackConfig\<close>: in the stages \<^verbatim>\<open>build-css\<close> and
  \<^verbatim>\<open>build-html\<close> no loader entry for plain stylesheets names the \<^verbatim>\<open>style\<close> loader;
  in \<^verbatim>\<open>develop\<close> the one entry for plain stylesheets runs \<^verbatim>\<open>style\<close>, \<^verbatim>\<open>css\<close>,
  \<^verbatim>\<open>postcss\<close>; in \<^verbatim>\<open>build-html\<close> and \<^verbatim>\<open>build-javascript\<close> the entry for plain
  stylesheets is the \<^verbatim>\<open>null\<close> loader, the entry for module stylesheets is an
  \<^verbatim>\<open>ExtractTextPlugin.extract\<close>, and the plugin list has one \<^verbatim>\<open>ExtractTextPlugin\<close>,
  which writes \<^verbatim>\<open>styles.css\<close>.
\<close>

theorem stylesheet_rules_by_stage:
  "map_option (filter injects_style)
      (plain_stylesheet_loaders (fst (compose env None program directory ''build-css'' port pages k)))
        = Some []
   \<and> map_option (filter injects_style)
      (plain_stylesheet_loaders (fst (compose env None program directory ''build-html'' port pages k)))
        = Some []
   \<and> plain_stylesheet_loaders (fst (compose env None program directory ''develop'' port pages k))
        = Some [Loaders [''style'', ''css'', ''postcss'']]
   \<and> injects_style (Loaders [''style'', ''css'', ''postcss''])
   \<and> plain_stylesheet_loaders (fst (compose env None program directory ''build-html'' port pages k))
        = Some [Loader ''null'']
   \<and> plain_stylesheet_loaders
        (fst (compose env None program directory ''build-javascript'' port pages k))
        = Some [Loader ''null'']
   \<and> module_stylesheet_loaders (fst (compose env None program directory ''build-html'' port pages k))
        = Some [Extract (Some ''style'') [cssModulesConf, ''postcss'']]
   \<and> module_stylesheet_loaders
        (fst (compose env None program directory ''build-javascript'' port pages k))
        = Some [Extract (Some ''style'') [cssModulesConf, ''postcss'']]
   \<and> extracts (Extract (Some ''style'') [cssModulesConf, ''postcss''])
   \<and> map_option extract_text_files
        (composed_plugins (fst (compose env None program directory ''build-html'' port pages k)))
        = Some [''styles.css'']
   \<and> map_option extract_text_files
        (composed_plugins (fst (compose env None program directory ''build-javascript'' port pages k)))
        = Some [''styles.css'']"
  by (simp add: compose_def planner_defs loader_defs plain_stylesheet_loaders_def
      module_stylesheet_loaders_def composed_plugins_def injects_style_def Let_def
      extract_text_files_def List.map_filter_simps define_plugin_def)

subsection \<open>The output\<close>

text \<open>
  Claim C6. With no \<^verbatim>\<open>modifyWebpackConfig\<close>, the output file name of
  \<^verbatim>\<open>build-javascript\<close> is \<^verbatim>\<open>[name]-[chunkhash:8].js\<close>, which has a hash placeholder;
  those of \<^verbatim>\<open>develop\<close>, \<^verbatim>\<open>build-css\<close> and \<^verbatim>\<open>build-html\<close> are \<^verbatim>\<open>[name].js\<close>,
  \<^verbatim>\<open>bundle-for-css.js\<close> and \<^verbatim>\<open>render-page.js\<close>, which have none.
\<close>

theorem output_filename_hash_token:
  "composed_filename (fst (compose env None program directory ''build-javascript'' port pages k))
      = Some ''[name]-[chunkhash:8].js''
   \<and> has_hash_token ''[name]-[chunkhash:8].js''
   \<and> composed_filename (fst (compose env None program directory ''develop'' port pages k))
      = Some ''[name].js''
   \<and> \<not> has_hash_token ''[name].js''
   \<and> composed_filename (fst (compose env None program directory ''build-css'' port pages k))
      = Some ''bundle-for-css.js''
   \<and> \<not> has_hash_token ''bundle-for-css.js''
   \<and> composed_filename (fst (compose env None program directory ''build-html'' port pages k))
      = Some ''render-page.js''
   \<and> \<not> has_hash_token ''render-page.js''"
  by (simp add: compose_def planner_defs module_fn_def composed_filename_def
      has_hash_token_def Let_def)

text \<open>
  \<open>decimal\<close> is the usual decimal numeral: its characters are digits, they stand for
  the number, and the first is not 0 unless the number is 0.
\<close>

lemma digit_cases:
  "d < 10 \<Longrightarrow> d = 0 \<or> d = 1 \<or> d = 2 \<or> d = 3 \<or> d = 4 \<or> d = 5 \<or> d = 6 \<or> d = 7 \<or> d = 8
     \<or> d = (9::nat)"
  by arith

lemma digit_code: "d < 10 \<Longrightarrow> of_char (''0123456789'' ! d) = 48 + d"
  using digit_cases [of d] by auto

lemma digit_in_table: "d < 10 \<Longrightarrow> ''0123456789'' ! d \<in> set ''0123456789''"
  using digit_cases [of d] by auto

lemma digit_zero: "d < 10 \<Longrightarrow> (''0123456789'' ! d = CHR ''0'') = (d = 0)"
  using digit_cases [of d] by auto

lemma decimal_not_empty: "decimal n \<noteq> []"
  by (subst decimal.simps) simp

lemma digits_value_decimal: "digits_value (decimal n) = n"
proof (induction n rule: decimal.induct)
  case (1 n)
  show ?case
  proof (cases "n < 10")
    case True
    then show ?thesis
      by (simp add: decimal.simps [of n] digits_value_def digit_code)
  next
    case False
    have m: "n mod 10 < 10" by simp
    from False 1 have ih: "digits_value (decimal (n div 10)) = n div 10" by simp
    have "digits_value (decimal n)
        = 10 * digits_value (decimal (n div 10)) + (of_char (''0123456789'' ! (n mod 10)) - 48)"
      using False by (subst decimal.simps) (simp add: digits_value_def)
    also have "\<dots> = 10 * (n div 10) + n mod 10"
      by (simp add: ih digit_code [OF m])
    finally show ?thesis by simp
  qed
qed

lemma decimal_digits: "set (decimal n) \<subseteq> set ''0123456789''"
proof (induction n rule: decimal.induct)
  case (1 n)
  show ?case
  proof (cases "n < 10")
    case True
    then show ?thesis
      using digit_in_table [of n] by (subst decimal.simps) simp
  next
    case False
    have m: "n mod 10 < 10" by simp
    from False 1 have ih: "set (decimal (n div 10)) \<subseteq> set ''0123456789''" by simp
    show ?thesis
      using False ih digit_in_table [OF m] by (subst decimal.simps) simp
  qed
qed

lemma decimal_leading: "0 < n \<Longrightarrow> hd (decimal n) \<noteq> CHR ''0''"
proof (induction n rule: decimal.induct)
  case (1 n)
  show ?case
  proof (cases "n < 10")
    case True
    then show ?thesis
      using "1.prems" digit_zero [of n] by (subst decimal.simps) simp
  next
    case False
    then have "0 < n div 10" by simp
    with False 1 have ih: "hd (decimal (n div 10)) \<noteq> CHR ''0''" by simp
    show ?thesis
      using False ih decimal_not_empty [of "n div 10"] by (subst decimal.simps) simp
  qed
qed

text \<open>
  Claim C7. In stage \<^verbatim>\<open>develop\<close>, with no \<^verbatim>\<open>modifyWebpackConfig\<close>, for a port that is
  a natural number below \<open>2\<^sup>5\<^sup>3\<close>, the public path of the output is \<^verbatim>\<open>http://\<close>, the
  host, a colon, the decimal numeral of the port and a slash; the numeral consists of
  digits that stand for the port, without a leading 0. A call without the port is the
  call with port 1500, in every stage; and the host \<^verbatim>\<open>localhost\<close> without a port gives
  \<^verbatim>\<open>http://localhost:1500/\<close>.
\<close>

theorem develop_publicPath:
  "p < 2 ^ 53 \<Longrightarrow>
   composed_publicPath (fst (compose env None program directory ''develop'' (Some p) pages k))
      = Some (Some (''http://'' @ host program @ '':'' @ decimal p @ ''/''))
   \<and> digits_value (decimal p) = p
   \<and> set (decimal p) \<subseteq> set ''0123456789''
   \<and> (p = 0 \<or> hd (decimal p) \<noteq> CHR ''0'')
   \<and> compose env modifyWebpackConfig program directory suppliedStage None pages k
      = compose env modifyWebpackConfig program directory suppliedStage (Some 1500) pages k
   \<and> composed_publicPath
        (fst (compose env None (program\<lparr>host := ''localhost''\<rparr>) directory ''develop'' None pages k))
      = Some (Some ''http://localhost:1500/'')"
proof -
  assume p: "p < 2 ^ 53"
  have path: "composed_publicPath
      (fst (compose env None program directory ''develop'' (Some p) pages k))
      = Some (Some (''http://'' @ host program @ '':'' @ decimal p @ ''/''))"
    using p
    by (simp add: compose_def planner_defs module_fn_def composed_publicPath_def Let_def
        template_number_def)
  have leading: "p = 0 \<or> hd (decimal p) \<noteq> CHR ''0''"
    using decimal_leading [of p] by blast
  have omitted: "compose env modifyWebpackConfig program directory suppliedStage None pages k
      = compose env modifyWebpackConfig program directory suppliedStage (Some 1500) pages k"
    by (simp add: compose_def)
  have localhost: "composed_publicPath
        (fst (compose env None (program\<lparr>host := ''localhost''\<rparr>) directory ''develop'' None
           pages k))
      = Some (Some ''http://localhost:1500/'')"
    by (simp add: compose_def planner_defs module_fn_def composed_publicPath_def Let_def
        template_number_def decimal.simps)
  show ?thesis
    using path digits_value_decimal [of p] decimal_digits [of p] leading omitted localhost
    by blast
qed

text \<open>C7 at the port 8000.\<close>

theorem develop_publicPath_witness:
  "(8000::nat) < 2 ^ 53
   \<and> composed_publicPath
       (fst (compose (site_env [] no_vars) None site_program ''/site'' ''develop'' (Some 8000) None fresh))
      = Some (Some ''http://localhost:8000/'')
   \<and> digits_value ''8000'' = 8000"
  using develop_publicPath [of 8000 "site_env [] no_vars" site_program "''/site''" None fresh None "''develop''"]
  by (simp add: site_program_def decimal.simps)

subsection \<open>\<^verbatim>\<open>develop-html\<close> and \<^verbatim>\<open>develop\<close>\<close>

text \<open>
  Claim C8. With no \<^verbatim>\<open>modifyWebpackConfig\<close>, the configurations \<open>c\<close> of \<^verbatim>\<open>develop\<close>
  and \<open>c'\<close> of \<^verbatim>\<open>develop-html\<close> have the same entry, output, plugins, resolve,
  resolveLoader and devtool. \<open>c'\<close> is \<open>c\<close> with one change, in the loaders: the query
  of the \<^verbatim>\<open>js\<close> loader is \<^verbatim>\<open>babelConfig(program, `develop-html`)\<close>, where \<open>c\<close> has
  \<^verbatim>\<open>babelConfig(program, `develop`)\<close>.
\<close>

theorem develop_html_differs_in_babel_query_only:
  "\<exists>c c'. fst (compose env None program directory ''develop'' port pages k) = Inr (JsConfig c)
     \<and> fst (compose env None program directory ''develop-html'' port pages k) = Inr (JsConfig c')
     \<and> config_entry c' = config_entry c
     \<and> config_output c' = config_output c
     \<and> config_plugins c' = config_plugins c
     \<and> config_resolve c' = config_resolve c
     \<and> config_resolveLoader_root c' = config_resolveLoader_root c
     \<and> config_devtool c' = config_devtool c
     \<and> c' = c\<lparr>config_loaders :=
            map (\<lambda>(name, l). if name = ''js''
                   then (name, l\<lparr>query := Some (babelConfig env program ''develop-html'')\<rparr>)
                   else (name, l))
              (config_loaders c)\<rparr>
     \<and> map_of (config_loaders c) ''js'' =
         Some \<lparr>test = ''/'' @ bsl @ ''.jsx?$/'',
               exclude = Some ''/(node_modules|bower_components)/'',
               use = Loader ''babel'',
               query = Some (babelConfig env program ''develop'')\<rparr>"
  by (simp add: compose_def planner_defs module_fn_def common_loaders_def Let_def)

subsection \<open>\<open>devtool\<close> and \<open>profile\<close>\<close>

text \<open>
  Claim C9. With no \<^verbatim>\<open>modifyWebpackConfig\<close>, \<^verbatim>\<open>devtool\<close> is \<^verbatim>\<open>eval\<close> in
  \<^verbatim>\<open>develop\<close> and \<^verbatim>\<open>develop-html\<close>, \<^verbatim>\<open>source-map\<close> in \<^verbatim>\<open>build-javascript\<close>, and
  \<^verbatim>\<open>false\<close> in \<^verbatim>\<open>build-css\<close> and \<^verbatim>\<open>build-html\<close>.
\<close>

theorem devtool_by_stage:
  "composed_devtool (fst (compose env None program directory ''develop'' port pages k))
      = Some (DevtoolString ''eval'')
   \<and> composed_devtool (fst (compose env None program directory ''develop-html'' port pages k))
      = Some (DevtoolString ''eval'')
   \<and> composed_devtool (fst (compose env None program directory ''build-javascript'' port pages k))
      = Some (DevtoolString ''source-map'')
   \<and> composed_devtool (fst (compose env None program directory ''build-css'' port pages k))
      = Some DevtoolFalse
   \<and> composed_devtool (fst (compose env None program directory ''build-html'' port pages k))
      = Some DevtoolFalse"
  by (simp add: compose_def planner_defs Let_def module_fn_def composed_devtool_def)

text \<open>
  Claim C10. For each of the five stages, with no \<^verbatim>\<open>modifyWebpackConfig\<close>, the call
  returns a configuration whose \<^verbatim>\<open>profile\<close> is false: the normalized stage is compared
  with \<^verbatim>\<open>production\<close>, which is none of the stages.
\<close>

theorem profile_never_set:
  "suppliedStage \<in> set recognized_stages \<Longrightarrow>
   composed_profile (fst (compose env None program directory suppliedStage port pages k)) = Some False
   \<and> stage_of suppliedStage \<noteq> ''production''"
  by (auto simp add: compose_def planner_defs Let_def module_fn_def recognized_stages_def
      composed_profile_def)

text \<open>C10 at the stage \<^verbatim>\<open>build-javascript\<close>.\<close>

theorem profile_never_set_witness:
  "''build-javascript'' \<in> set recognized_stages
   \<and> composed_profile
       (fst (compose (site_env [page_A] no_vars) None site_program ''/site'' ''build-javascript''
          None None fresh)) = Some False"
  using profile_never_set [of "''build-javascript''" "site_env [page_A] no_vars" site_program
      "''/site''" None None fresh]
  by (simp add: recognized_stages_def)

end
